theory Spec2Isabelle
  imports Main
begin

section \<open>Python values, exceptions and observable events\<close>

text \<open>
  The script \<^verbatim>\<open>scholar_cite_checker.py\<close> polls a citation count, mails a notice when
  it has grown and keeps the last count in a text file. Its functions are embedded one
  by one. Every function that can raise in Python returns a sum, \<open>Inl\<close> carrying the
  exception; the file system and the log are threaded through as an explicit state.
  The scholarly library, the SMTP server, the disk and the clock are parameters.
\<close>

text \<open>The exception classes the handlers of the script tell apart; every other
  subclass of \<^verbatim>\<open>Exception\<close> is \<open>OtherException\<close>. The string is \<^verbatim>\<open>str(e)\<close>.\<close>

datatype exc_kind =
  StopIteration | FileNotFoundError | ValueError | TypeError
  | SMTPAuthenticationError | OtherException

datatype py_exc = Exc exc_kind string

fun exc_str :: "py_exc \<Rightarrow> string" where
  "exc_str (Exc k m) = m"

fun exc_kind_of :: "py_exc \<Rightarrow> exc_kind" where
  "exc_kind_of (Exc k m) = k"

text \<open>Dynamically typed values: \<^verbatim>\<open>None\<close>, a string, an integer, or the generator
  object that \<^verbatim>\<open>scholarly.search_author\<close> returns.\<close>

datatype py_val = PyNone | PyStr string | PyInt int | PyGen

text \<open>Truthiness, as \<^verbatim>\<open>not x\<close>, \<^verbatim>\<open>if x\<close> and \<^verbatim>\<open>all([...])\<close> test it.\<close>

fun truthy :: "py_val \<Rightarrow> bool" where
  "truthy PyNone = False"
| "truthy (PyStr s) = (s \<noteq> [])"
| "truthy (PyInt i) = (i \<noteq> 0)"
| "truthy PyGen = True"

datatype level = INFO | WARNING | ERROR

record email_message =
  msg_subject :: string
  msg_from :: string
  msg_to :: string
  msg_content :: string

text \<open>What a run does to the outside world, in order: log lines (level and message),
  the calls on the SMTP connection, and the sleep between cycles.\<close>

datatype event =
  Log level string
  | SmtpConnect py_val py_val
  | SmtpStartTls
  | SmtpLogin py_val py_val
  | SmtpSendMessage email_message
  | SmtpQuit
  | Sleep nat

text \<open>A path holds no file, a file that cannot be opened or decoded (the exception
  \<^verbatim>\<open>open\<close> or \<^verbatim>\<open>read\<close> raises), or text.\<close>

datatype file_entry = Absent | Unreadable py_exc | Text string

type_synonym filesystem = "string \<Rightarrow> file_entry"

record state =
  files :: filesystem
  trace :: "event list"

definition logging :: "level \<Rightarrow> string \<Rightarrow> state \<Rightarrow> state" where
  "logging lv m s = s\<lparr>trace := trace s @ [Log lv m]\<rparr>"

definition emit :: "event \<Rightarrow> state \<Rightarrow> state" where
  "emit e s = s\<lparr>trace := trace s @ [e]\<rparr>"

definition no_files :: filesystem where
  "no_files = (\<lambda>p. Absent)"

definition start_state :: "filesystem \<Rightarrow> state" where
  "start_state fs = \<lparr>files = fs, trace = []\<rparr>"

section \<open>Strings and integers\<close>

text \<open>Characters are the code points 0 to 255. \<^verbatim>\<open>str.strip()\<close> removes the characters
  for which \<^verbatim>\<open>str.isspace\<close> holds: 9 to 13, 28 to 32, 133 and 160 in that range.\<close>

definition isspace :: "char \<Rightarrow> bool" where
  "isspace c = (let n = (of_char c :: nat) in
     (9 \<le> n \<and> n \<le> 13) \<or> (28 \<le> n \<and> n \<le> 32) \<or> n = 133 \<or> n = 160)"

definition strip :: "string \<Rightarrow> string" where
  "strip s = rev (dropWhile isspace (rev (dropWhile isspace s)))"

definition isdigit :: "char \<Rightarrow> bool" where
  "isdigit c = (let n = (of_char c :: nat) in 48 \<le> n \<and> n \<le> 57)"

definition digit_val :: "char \<Rightarrow> nat" where
  "digit_val c = of_char c - 48"

definition digit_char :: "nat \<Rightarrow> char" where
  "digit_char d = char_of (48 + d)"

text \<open>The digits of a decimal literal after its first digit has been seen: digits,
  with single underscores allowed between two digits (\<^verbatim>\<open>int("1_000") == 1000\<close>).\<close>

fun parse_digits :: "nat \<Rightarrow> string \<Rightarrow> nat option" where
  "parse_digits acc [] = Some acc"
| "parse_digits acc [c] = (if isdigit c then Some (acc * 10 + digit_val c) else None)"
| "parse_digits acc (c # d # cs) =
     (if isdigit c then parse_digits (acc * 10 + digit_val c) (d # cs)
      else if c = CHR ''_'' \<and> isdigit d then parse_digits acc (d # cs)
      else None)"

definition parse_nat :: "string \<Rightarrow> nat option" where
  "parse_nat s = (case s of [] \<Rightarrow> None
     | c # cs \<Rightarrow> if isdigit c then parse_digits 0 s else None)"

text \<open>\<^verbatim>\<open>int(s)\<close> on a string, base 10: surrounding whitespace is dropped, one sign is
  allowed, anything else raises \<^verbatim>\<open>ValueError\<close>. (The interpreter's optional limit on the
  number of digits is not part of the model.)\<close>

definition invalid_literal :: "string \<Rightarrow> py_exc" where
  "invalid_literal s = Exc ValueError (''invalid literal for int() with base 10: '' @ s)"

definition py_int :: "string \<Rightarrow> py_exc + int" where
  "py_int s =
     (case strip s of
        [] \<Rightarrow> Inl (invalid_literal s)
      | c # cs \<Rightarrow>
          if c = CHR ''-'' then
            (case parse_nat cs of None \<Rightarrow> Inl (invalid_literal s) | Some n \<Rightarrow> Inr (- int n))
          else if c = CHR ''+'' then
            (case parse_nat cs of None \<Rightarrow> Inl (invalid_literal s) | Some n \<Rightarrow> Inr (int n))
          else
            (case parse_nat (c # cs) of None \<Rightarrow> Inl (invalid_literal s) | Some n \<Rightarrow> Inr (int n)))"

text \<open>\<^verbatim>\<open>str(n)\<close> on an integer.\<close>

fun str_nat :: "nat \<Rightarrow> string" where
  "str_nat n = (if n < 10 then [digit_char n] else str_nat (n div 10) @ [digit_char (n mod 10)])"

declare str_nat.simps [simp del]

definition str_int :: "int \<Rightarrow> string" where
  "str_int i = (if i < 0 then CHR ''-'' # str_nat (nat (- i)) else str_nat (nat i))"

text \<open>\<^verbatim>\<open>str(v)\<close> as an f-string interpolates a value.\<close>

fun py_str :: "py_val \<Rightarrow> string" where
  "py_str PyNone = ''None''"
| "py_str (PyStr s) = s"
| "py_str (PyInt i) = str_int i"
| "py_str PyGen = ''<generator object>''"

section \<open>The persistent counter store\<close>

text \<open>\<^verbatim>\<open>open(filepath, 'r')\<close> followed by \<^verbatim>\<open>f.read()\<close>.\<close>

definition open_read :: "filesystem \<Rightarrow> string \<Rightarrow> py_exc + string" where
  "open_read fs filepath =
     (case fs filepath of
        Absent \<Rightarrow> Inl (Exc FileNotFoundError (''No such file or directory: '' @ filepath))
      | Unreadable e \<Rightarrow> Inl e
      | Text raw \<Rightarrow> Inr raw)"

text \<open>The body of the \<^verbatim>\<open>try\<close> of \<^verbatim>\<open>read_last_count\<close>.\<close>

definition read_last_count_try :: "string \<Rightarrow> state \<Rightarrow> (py_exc + int) \<times> state" where
  "read_last_count_try filepath s =
     (case open_read (files s) filepath of
        Inl e \<Rightarrow> (Inl e, s)
      | Inr raw \<Rightarrow>
          (let content = strip raw in
           if content \<noteq> [] then (py_int content, s)
           else (Inr 0, logging INFO
                  (''File '' @ filepath @ '' is empty, assuming initial count is 0.'') s)))"

text \<open>\<^verbatim>\<open>read_last_count\<close>: the \<^verbatim>\<open>except\<close> clauses in the order of the source.\<close>

definition read_last_count :: "string \<Rightarrow> state \<Rightarrow> (py_exc + int) \<times> state" where
  "read_last_count filepath s =
     (case read_last_count_try filepath s of
        (Inr n, s') \<Rightarrow> (Inr n, s')
      | (Inl e, s') \<Rightarrow>
          if exc_kind_of e = FileNotFoundError then
            (Inr 0, logging INFO
               (''File '' @ filepath @ '' not found, assuming initial count is 0.'') s')
          else if exc_kind_of e = ValueError then
            (Inr 0, logging ERROR
               (''Could not parse integer from '' @ filepath @ ''. Assuming 0.'') s')
          else
            (Inr 0, logging ERROR
               (''Error reading '' @ filepath @ '': '' @ exc_str e @ ''. Assuming 0.'') s'))"

text \<open>How a write can fail: \<^verbatim>\<open>open(filepath, 'w')\<close> raises and the file is as it was,
  or the file has been truncated by \<^verbatim>\<open>open\<close> and \<^verbatim>\<open>write\<close> or the closing flush raises
  after the given number of characters reached the file.\<close>

datatype write_fault = OpenFails py_exc | WriteFails nat py_exc

text \<open>The body of the \<^verbatim>\<open>try\<close> of \<^verbatim>\<open>write_last_count\<close>.\<close>

definition write_last_count_try ::
  "string \<Rightarrow> int \<Rightarrow> write_fault option \<Rightarrow> state \<Rightarrow> (py_exc + unit) \<times> state" where
  "write_last_count_try filepath count fault s =
     (case fault of
        Some (OpenFails e) \<Rightarrow> (Inl e, s)
      | Some (WriteFails k e) \<Rightarrow>
          (Inl e, s\<lparr>files := (files s)(filepath := Text (take k (str_int count)))\<rparr>)
      | None \<Rightarrow>
          (Inr (), logging INFO
             (''Successfully updated '' @ filepath @ '' with count: '' @ str_int count)
             (s\<lparr>files := (files s)(filepath := Text (str_int count))\<rparr>)))"

text \<open>\<^verbatim>\<open>write_last_count\<close> has no \<^verbatim>\<open>return\<close> statement: it returns \<^verbatim>\<open>None\<close> on both
  paths.\<close>

definition write_last_count ::
  "string \<Rightarrow> int \<Rightarrow> write_fault option \<Rightarrow> state \<Rightarrow> (py_exc + py_val) \<times> state" where
  "write_last_count filepath count fault s =
     (case write_last_count_try filepath count fault s of
        (Inr u, s') \<Rightarrow> (Inr PyNone, s')
      | (Inl e, s') \<Rightarrow>
          (Inr PyNone, logging ERROR
             (''Error writing to '' @ filepath @ '': '' @ exc_str e) s'))"

text \<open>The count the store holds: what a read of the file yields.\<close>

definition persisted :: "string \<Rightarrow> state \<Rightarrow> py_exc + int" where
  "persisted filepath s = fst (read_last_count filepath s)"

section \<open>The citation lookup\<close>

text \<open>An author record of the scholarly library is a dictionary; the script reads its keys
  \<^verbatim>\<open>name\<close> and \<^verbatim>\<open>citedby\<close>.\<close>

type_synonym author = "(string \<times> py_val) list"

definition dict_get :: "author \<Rightarrow> string \<Rightarrow> py_val \<Rightarrow> py_val" where
  "dict_get d k dflt = (case map_of d k of None \<Rightarrow> dflt | Some v \<Rightarrow> v)"

definition dict_has :: "author \<Rightarrow> string \<Rightarrow> bool" where
  "dict_has d k = (map_of d k \<noteq> None)"

text \<open>The three calls into the scholarly library, each returning or raising. The generator
  of \<^verbatim>\<open>search_author\<close> is the list of what successive \<^verbatim>\<open>next\<close> calls give.\<close>

record scholarly =
  search_author_id :: "py_val \<Rightarrow> py_exc + author"
  search_author :: "py_val \<Rightarrow> py_exc + (py_exc + author) list"
  fill :: "author \<Rightarrow> py_exc + author"

fun next_result :: "(py_exc + author) list \<Rightarrow> py_exc + author" where
  "next_result [] = Inl (Exc StopIteration [])"
| "next_result (r # rs) = r"

text \<open>Lines 94 to 100: the result once \<^verbatim>\<open>author_info\<close> is filled. \<open>None\<close> stands for
  \<^verbatim>\<open>author_info\<close> being \<^verbatim>\<open>None\<close>.\<close>

definition citation_result ::
  "author option \<Rightarrow> state \<Rightarrow> (py_val \<times> py_val) \<times> state" where
  "citation_result author_info s =
     (case author_info of
        None \<Rightarrow> ((PyStr ''Unknown Author'', PyNone),
                 logging WARNING ''Could not find citation info for the author.'' s)
      | Some a \<Rightarrow>
          if a \<noteq> [] \<and> dict_has a ''citedby'' then
            (let citations = dict_get a ''citedby'' PyNone;
                 found = dict_get a ''name'' (PyStr ''N/A'')
             in ((found, citations),
                 logging INFO (''Found author: '' @ py_str found @ '', Citations: ''
                   @ py_str citations) s))
          else
            ((if a \<noteq> [] then dict_get a ''name'' (PyStr ''N/A'') else PyStr ''Unknown Author'',
              PyNone),
             logging WARNING ''Could not find citation info for the author.'' s))"

text \<open>The body of the \<^verbatim>\<open>try\<close> of \<^verbatim>\<open>get_citation_count\<close>. A raise carries the value the
  local \<^verbatim>\<open>search_query\<close> has at that point, which the last handler returns: \<^verbatim>\<open>None\<close>
  until \<^verbatim>\<open>search_author\<close> has returned its generator, the generator after.\<close>

definition get_citation_count_try ::
  "py_val \<Rightarrow> py_val \<Rightarrow> scholarly \<Rightarrow> state
     \<Rightarrow> ((py_exc \<times> py_val) + (py_val \<times> py_val)) \<times> state" where
  "get_citation_count_try author_name author_id lib s =
     (if truthy author_id then
        (let s1 = logging INFO (''Searching for author by ID: '' @ py_str author_id) s in
         case search_author_id lib author_id of
           Inl e \<Rightarrow> (Inl (e, PyNone), s1)
         | Inr a \<Rightarrow>
             (case fill lib a of
                Inl e \<Rightarrow> (Inl (e, PyNone), s1)
              | Inr a' \<Rightarrow> (case citation_result (Some a') s1 of (r, s2) \<Rightarrow> (Inr r, s2))))
      else if truthy author_name then
        (let s1 = logging INFO (''Searching for author by name: '' @ py_str author_name) s in
         case search_author lib author_name of
           Inl e \<Rightarrow> (Inl (e, PyNone), s1)
         | Inr results \<Rightarrow>
             (case next_result results of
                Inl e \<Rightarrow> (Inl (e, PyGen), s1)
              | Inr a \<Rightarrow>
                  (case fill lib a of
                     Inl e \<Rightarrow> (Inl (e, PyGen), s1)
                   | Inr a' \<Rightarrow> (case citation_result (Some a') s1 of (r, s2) \<Rightarrow> (Inr r, s2)))))
      else (case citation_result None s of (r, s2) \<Rightarrow> (Inr r, s2)))"

text \<open>\<^verbatim>\<open>get_citation_count\<close>: the result is the pair (display name, count).\<close>

definition get_citation_count ::
  "py_val \<Rightarrow> py_val \<Rightarrow> scholarly \<Rightarrow> state \<Rightarrow> (py_exc + (py_val \<times> py_val)) \<times> state" where
  "get_citation_count author_name author_id lib s =
     (if \<not> truthy author_name \<and> \<not> truthy author_id then
        (Inr (PyNone, PyNone),
         logging ERROR ''Either author_name or author_id must be provided.'' s)
      else
        (case get_citation_count_try author_name author_id lib s of
           (Inr r, s') \<Rightarrow> (Inr r, s')
         | (Inl (e, search_query), s') \<Rightarrow>
             if exc_kind_of e = StopIteration then
               (Inr (author_name, PyNone),
                logging ERROR (''Author '' @ [CHR 0x27] @ py_str author_name @ [CHR 0x27]
                  @ '' not found.'') s')
             else
               (Inr (search_query, PyNone),
                logging ERROR (''An error occurred while fetching citation data: ''
                  @ exc_str e) s')))"

section \<open>The notifier\<close>

text \<open>The step of the SMTP session that raises, if one does.\<close>

datatype smtp_fault =
  ConnectFails py_exc | StartTlsFails py_exc | LoginFails py_exc
  | SendFails py_exc | QuitFails py_exc

text \<open>The body of the \<^verbatim>\<open>try\<close> of \<^verbatim>\<open>send_email\<close>. Leaving the \<^verbatim>\<open>with\<close> block, by
  \<^verbatim>\<open>return\<close> or by a raise, sends QUIT.\<close>

definition send_email_try ::
  "email_message \<Rightarrow> py_val \<Rightarrow> py_val \<Rightarrow> py_val \<Rightarrow> py_val \<Rightarrow> py_val
     \<Rightarrow> smtp_fault option \<Rightarrow> state \<Rightarrow> (py_exc + bool) \<times> state" where
  "send_email_try msg sender password receiver server port fault s =
     (let s1 = emit (SmtpConnect server port)
                 (logging INFO (''Connecting to SMTP server '' @ py_str server @ '':''
                    @ py_str port) s);
          s2 = logging INFO ''Logging into SMTP server...'' (emit SmtpStartTls s1);
          s3 = logging INFO (''Sending email to '' @ py_str receiver @ ''...'')
                 (emit (SmtpLogin sender password) s2);
          s4 = logging INFO ''Email sent successfully.'' (emit (SmtpSendMessage msg) s3)
      in case fault of
           Some (ConnectFails e) \<Rightarrow> (Inl e, s1)
         | Some (StartTlsFails e) \<Rightarrow> (Inl e, emit SmtpQuit (emit SmtpStartTls s1))
         | Some (LoginFails e) \<Rightarrow> (Inl e, emit SmtpQuit (emit (SmtpLogin sender password) s2))
         | Some (SendFails e) \<Rightarrow> (Inl e, emit SmtpQuit (emit (SmtpSendMessage msg) s3))
         | Some (QuitFails e) \<Rightarrow> (Inl e, emit SmtpQuit s4)
         | None \<Rightarrow> (Inr True, emit SmtpQuit s4))"

definition send_email ::
  "string \<Rightarrow> string \<Rightarrow> py_val \<Rightarrow> py_val \<Rightarrow> py_val \<Rightarrow> py_val \<Rightarrow> py_val
     \<Rightarrow> smtp_fault option \<Rightarrow> state \<Rightarrow> (py_exc + bool) \<times> state" where
  "send_email subject body sender password receiver server port fault s =
     (if \<not> list_all truthy [sender, password, receiver, server, port] then
        (Inr False, logging ERROR ''Email configuration is incomplete. Cannot send email.'' s)
      else
        (let msg = \<lparr>msg_subject = subject, msg_from = py_str sender,
                    msg_to = py_str receiver, msg_content = body\<rparr>
         in case send_email_try msg sender password receiver server port fault s of
              (Inr b, s') \<Rightarrow> (Inr b, s')
            | (Inl e, s') \<Rightarrow>
                if exc_kind_of e = SMTPAuthenticationError then
                  (Inr False, logging ERROR
                     ''SMTP Authentication Error: Check sender email/password (or App Password for Gmail).''
                     s')
                else
                  (Inr False, logging ERROR (''Failed to send email: '' @ exc_str e) s')))"

section \<open>Configuration\<close>

text \<open>The environment after \<^verbatim>\<open>load_dotenv()\<close>, and \<^verbatim>\<open>os.getenv(key, default)\<close>.\<close>

type_synonym environ = "string \<Rightarrow> string option"

definition getenv :: "environ \<Rightarrow> string \<Rightarrow> py_val \<Rightarrow> py_val" where
  "getenv env k dflt = (case env k of None \<Rightarrow> dflt | Some v \<Rightarrow> PyStr v)"

record config =
  AUTHOR_NAME :: py_val
  AUTHOR_ID :: py_val
  SMTP_SERVER :: py_val
  SMTP_PORT :: int
  SENDER_EMAIL :: py_val
  SENDER_PASSWORD :: py_val
  RECEIVER_EMAIL :: py_val

definition LAST_COUNT_FILE :: string where
  "LAST_COUNT_FILE = ''last_citation_count.txt''"

text \<open>\<^verbatim>\<open>int(x)\<close> on what \<^verbatim>\<open>os.getenv("SMTP_PORT", 587)\<close> returns: the integer default or
  the variable's string.\<close>

fun int_of_val :: "py_val \<Rightarrow> py_exc + int" where
  "int_of_val (PyInt i) = Inr i"
| "int_of_val (PyStr s) = py_int s"
| "int_of_val v = Inl (Exc TypeError ''int() argument must be a string or a number'')"

text \<open>Lines 11 to 28, run once when the module is loaded. Line 21 is outside any
  \<^verbatim>\<open>try\<close>.\<close>

definition load_config :: "environ \<Rightarrow> py_exc + config" where
  "load_config env =
     (case int_of_val (getenv env ''SMTP_PORT'' (PyInt 587)) of
        Inl e \<Rightarrow> Inl e
      | Inr port \<Rightarrow>
          Inr \<lparr>AUTHOR_NAME = getenv env ''AUTHOR_NAME'' (PyStr ''Albert Einstein''),
               AUTHOR_ID = getenv env ''AUTHOR_ID'' PyNone,
               SMTP_SERVER = getenv env ''SMTP_SERVER'' (PyStr ''smtp.gmail.com''),
               SMTP_PORT = port,
               SENDER_EMAIL = getenv env ''SENDER_EMAIL'' PyNone,
               SENDER_PASSWORD = getenv env ''SENDER_PASSWORD'' PyNone,
               RECEIVER_EMAIL = getenv env ''RECEIVER_EMAIL'' PyNone\<rparr>)"

section \<open>The check cycle\<close>

text \<open>What the outside world does during one cycle: the scholarly library, the SMTP
  session, the disk on a write, and the text \<^verbatim>\<open>time.strftime\<close> gives.\<close>

record world =
  lib :: scholarly
  smtp :: "smtp_fault option"
  disk :: "write_fault option"
  clock :: string

text \<open>Lines 152 to 168: the triple (search identifier, display name, count).\<close>

definition cycle_lookup ::
  "config \<Rightarrow> world \<Rightarrow> state \<Rightarrow> (py_exc + (string \<times> py_val \<times> py_val)) \<times> state" where
  "cycle_lookup cfg w s =
     (if truthy (AUTHOR_ID cfg) then
        (case get_citation_count PyNone (AUTHOR_ID cfg) (lib w) s of
           (Inl e, s') \<Rightarrow> (Inl e, s')
         | (Inr (nm, c), s') \<Rightarrow> (Inr (''ID: '' @ py_str (AUTHOR_ID cfg), nm, c), s'))
      else if truthy (AUTHOR_NAME cfg) then
        (case get_citation_count (AUTHOR_NAME cfg) PyNone (lib w) s of
           (Inl e, s') \<Rightarrow> (Inl e, s')
         | (Inr (nm, c), s') \<Rightarrow> (Inr (''Name: '' @ py_str (AUTHOR_NAME cfg), nm, c), s'))
      else
        (Inr (''N/A'', PyStr ''N/A'', PyNone),
         logging ERROR
           ''No author name or ID provided in environment variables. Skipping check for this cycle.''
           s))"

definition increase_subject :: "py_val \<Rightarrow> int \<Rightarrow> string" where
  "increase_subject author_display_name increase =
     ''Citation Increase for '' @ py_str author_display_name @ '' (+'' @ str_int increase @ '')''"

definition increase_body :: "string \<Rightarrow> py_val \<Rightarrow> int \<Rightarrow> int \<Rightarrow> string \<Rightarrow> string" where
  "increase_body search_identifier author_display_name cur last_count now =
     ''Author Searched: '' @ search_identifier @ [CHR 0x0A]
     @ ''Author Found: '' @ py_str author_display_name @ [CHR 0x0A]
     @ ''New Total Citations: '' @ str_int cur @ '' (previously '' @ str_int last_count
     @ '', increase of '' @ str_int (cur - last_count) @ '')'' @ [CHR 0x0A, CHR 0x0A]
     @ ''Checked on: '' @ now"

text \<open>Lines 174 to 190: the count has grown.\<close>

definition on_increase ::
  "config \<Rightarrow> world \<Rightarrow> int \<Rightarrow> string \<Rightarrow> py_val \<Rightarrow> int \<Rightarrow> state \<Rightarrow> (py_exc + unit) \<times> state" where
  "on_increase cfg w last_count search_identifier author_display_name cur s =
     (let s1 = logging INFO (''New citation count ('' @ str_int cur
                 @ '') is higher than the last count ('' @ str_int last_count
                 @ ''). Sending email.'') s;
          increase = cur - last_count;
          subject = increase_subject author_display_name increase;
          body = increase_body search_identifier author_display_name cur last_count (clock w)
      in case send_email subject body (SENDER_EMAIL cfg) (SENDER_PASSWORD cfg)
                (RECEIVER_EMAIL cfg) (SMTP_SERVER cfg) (PyInt (SMTP_PORT cfg)) (smtp w) s1 of
           (Inl e, s2) \<Rightarrow> (Inl e, s2)
         | (Inr email_sent, s2) \<Rightarrow>
             if email_sent then
               (case write_last_count LAST_COUNT_FILE cur (disk w) s2 of
                  (Inl e, s3) \<Rightarrow> (Inl e, s3)
                | (Inr r, s3) \<Rightarrow> (Inr (), s3))
             else
               (Inr (), logging ERROR
                  ''Email failed to send. Last count file will not be updated.'' s2))"

text \<open>Lines 170 to 201: compare and act. Comparing a count that is neither \<^verbatim>\<open>None\<close> nor
  an integer with the integer read from the file raises \<^verbatim>\<open>TypeError\<close>.\<close>

definition cycle_decide ::
  "config \<Rightarrow> world \<Rightarrow> int \<Rightarrow> string \<Rightarrow> py_val \<Rightarrow> py_val \<Rightarrow> state \<Rightarrow> (py_exc + unit) \<times> state" where
  "cycle_decide cfg w last_count search_identifier author_display_name total_citations s =
     (if search_identifier \<noteq> ''N/A'' then
        (case total_citations of
           PyNone \<Rightarrow>
             (Inr (), logging WARNING (''Could not retrieve citation count for ''
                @ search_identifier @ ''. No comparison or email sent this cycle.'') s)
         | PyInt cur \<Rightarrow>
             if cur > last_count then
               on_increase cfg w last_count search_identifier author_display_name cur s
             else if cur = last_count then
               (Inr (), logging INFO (''Citation count ('' @ str_int cur
                  @ '') has not changed since the last check.'') s)
             else
               (case write_last_count LAST_COUNT_FILE cur (disk w)
                       (logging WARNING (''Citation count ('' @ str_int cur
                          @ '') is lower than the last known count ('' @ str_int last_count
                          @ ''). Not sending email, but updating count file.'') s) of
                  (Inl e, s') \<Rightarrow> (Inl e, s')
                | (Inr r, s') \<Rightarrow> (Inr (), s'))
         | _ \<Rightarrow> (Inl (Exc TypeError ''> not supported between these instances''), s))
      else (Inr (), s))"

text \<open>The body of the \<^verbatim>\<open>try\<close> of one iteration of the main loop, lines 145 to 203.\<close>

definition cycle_try :: "config \<Rightarrow> world \<Rightarrow> state \<Rightarrow> (py_exc + unit) \<times> state" where
  "cycle_try cfg w s =
     (case read_last_count LAST_COUNT_FILE
             (logging INFO ''--- Starting Hourly Citation Check ---'' s) of
        (Inl e, s1) \<Rightarrow> (Inl e, s1)
      | (Inr last_count, s1) \<Rightarrow>
          (case cycle_lookup cfg w
                  (logging INFO (''Last known citation count: '' @ str_int last_count) s1) of
             (Inl e, s2) \<Rightarrow> (Inl e, s2)
           | (Inr (search_identifier, author_display_name, total_citations), s2) \<Rightarrow>
               (case cycle_decide cfg w last_count search_identifier author_display_name
                       total_citations s2 of
                  (Inl e, s3) \<Rightarrow> (Inl e, s3)
                | (Inr u, s3) \<Rightarrow>
                    (Inr (), logging INFO ''--- Citation Check Cycle Finished ---'' s3))))"

text \<open>One iteration of \<^verbatim>\<open>while True\<close>: the guarded body, then the hour of sleep.\<close>

definition cycle :: "config \<Rightarrow> world \<Rightarrow> state \<Rightarrow> state" where
  "cycle cfg w s =
     (let s1 = (case cycle_try cfg w s of
                  (Inr u, s') \<Rightarrow> s'
                | (Inl e, s') \<Rightarrow>
                    logging ERROR ''Script will continue to the next cycle after the delay.''
                      (logging ERROR (''An unexpected error occurred during the check cycle: ''
                         @ exc_str e) s'))
      in emit (Sleep 3600) (logging INFO ''Waiting for 1 hour before next check...'' s1))"

text \<open>The loop never ends by itself; a run is observed for as many cycles as the list of
  worlds is long.\<close>

fun main_loop :: "config \<Rightarrow> world list \<Rightarrow> state \<Rightarrow> state" where
  "main_loop cfg [] s = s"
| "main_loop cfg (w # ws) s = main_loop cfg ws (cycle cfg w s)"

text \<open>The whole script: the configuration is loaded at module level; an exception there
  ends the process before the loop is entered.\<close>

definition program :: "environ \<Rightarrow> world list \<Rightarrow> state \<Rightarrow> py_exc option \<times> state" where
  "program env ws s =
     (case load_config env of
        Inl e \<Rightarrow> (Some e, s)
      | Inr cfg \<Rightarrow> (None, main_loop cfg ws s))"

section \<open>Reading a trace\<close>

text \<open>The events that only \<^verbatim>\<open>send_email\<close> produces: its refusal of an incomplete
  configuration and every call on the SMTP connection.\<close>

fun notify_event :: "event \<Rightarrow> bool" where
  "notify_event (Log lv m) =
     (lv = ERROR \<and> m = ''Email configuration is incomplete. Cannot send email.'')"
| "notify_event (Sleep k) = False"
| "notify_event e = True"

fun smtp_event :: "event \<Rightarrow> bool" where
  "smtp_event (Log lv m) = False"
| "smtp_event (Sleep k) = False"
| "smtp_event e = True"

text \<open>The events of a trace that come from \<^verbatim>\<open>send_email\<close>.\<close>

definition notifications :: "state \<Rightarrow> event list" where
  "notifications s = filter notify_event (trace s)"


section \<open>Concrete runs\<close>

text \<open>A library that finds the author with a given count, one that finds nobody by
  name, and one whose every call raises.\<close>

definition lib_found :: "string \<Rightarrow> py_val \<Rightarrow> scholarly" where
  "lib_found nm c =
     \<lparr>search_author_id = (\<lambda>i. Inr [(''scholar_id'', i)]),
      search_author = (\<lambda>n. Inr [Inr [(''name'', PyStr nm)]]),
      fill = (\<lambda>a. Inr (a @ [(''name'', PyStr nm), (''citedby'', c)]))\<rparr>"

definition lib_no_match :: scholarly where
  "lib_no_match =
     \<lparr>search_author_id = (\<lambda>i. Inl (Exc OtherException ''no such profile'')),
      search_author = (\<lambda>n. Inr []),
      fill = (\<lambda>a. Inr a)\<rparr>"


definition demo_config :: config where
  "demo_config =
     \<lparr>AUTHOR_NAME = PyStr ''Ada Lovelace'', AUTHOR_ID = PyNone,
      SMTP_SERVER = PyStr ''smtp.gmail.com'', SMTP_PORT = 587,
      SENDER_EMAIL = PyStr ''bot@example.org'', SENDER_PASSWORD = PyStr ''secret'',
      RECEIVER_EMAIL = PyStr ''me@example.org''\<rparr>"

definition demo_world :: "scholarly \<Rightarrow> smtp_fault option \<Rightarrow> write_fault option \<Rightarrow> world" where
  "demo_world l sm dk = \<lparr>lib = l, smtp = sm, disk = dk, clock = ''2024-01-01 00:00:00''\<rparr>"

text \<open>The state in which the count file holds the given text and nothing has been logged.\<close>

definition stored :: "string \<Rightarrow> state" where
  "stored c = start_state (no_files(LAST_COUNT_FILE := Text c))"

definition permission_denied :: py_exc where
  "permission_denied = Exc OtherException ''Permission denied''"


definition env_bad_port :: environ where
  "env_bad_port = (\<lambda>k. if k = ''SMTP_PORT'' then Some ''abc'' else None)"


section \<open>Decimal text and integers\<close>

lemma isdigit_digit_char: "d < 10 \<Longrightarrow> isdigit (digit_char d)"
  by (simp add: isdigit_def digit_char_def)

lemma digit_val_digit_char: "d < 10 \<Longrightarrow> digit_val (digit_char d) = d"
  by (simp add: digit_val_def digit_char_def)

lemma not_isspace_digit_char: "d < 10 \<Longrightarrow> \<not> isspace (digit_char d)"
  by (simp add: isspace_def digit_char_def)

lemma parse_digits_all:
  "ds \<noteq> [] \<Longrightarrow> list_all isdigit ds \<Longrightarrow>
   parse_digits acc ds = Some (foldl (\<lambda>a c. a * 10 + digit_val c) acc ds)"
  by (induction acc ds rule: parse_digits.induct) auto

lemma str_nat_nonempty: "str_nat n \<noteq> []"
  by (subst str_nat.simps) simp

lemma str_nat_digits: "list_all isdigit (str_nat n)"
  by (induction n rule: str_nat.induct) (subst str_nat.simps, simp add: isdigit_digit_char)

lemma str_nat_value: "foldl (\<lambda>a c. a * 10 + digit_val c) 0 (str_nat n) = n"
  by (induction n rule: str_nat.induct) (subst str_nat.simps, simp add: digit_val_digit_char)

lemma parse_nat_str_nat: "parse_nat (str_nat n) = Some n"
proof -
  obtain c cs where eq: "str_nat n = c # cs"
    using str_nat_nonempty[of n] by (cases "str_nat n") auto
  have "isdigit c"
    using str_nat_digits[of n] by (simp add: eq)
  then have "parse_nat (str_nat n) = parse_digits 0 (str_nat n)"
    by (simp add: parse_nat_def eq)
  also have "\<dots> = Some (foldl (\<lambda>a c. a * 10 + digit_val c) 0 (str_nat n))"
    by (rule parse_digits_all[OF str_nat_nonempty str_nat_digits])
  finally show ?thesis by (simp add: str_nat_value)
qed

lemma strip_id:
  assumes "s \<noteq> []" "\<not> isspace (hd s)" "\<not> isspace (last s)"
  shows "strip s = s"
proof -
  have a: "dropWhile isspace s = s"
    using assms by (cases s) auto
  have "rev s \<noteq> []" "\<not> isspace (hd (rev s))"
    using assms by (simp_all add: hd_rev)
  then have "dropWhile isspace (rev s) = rev s"
    by (cases "rev s") auto
  then show ?thesis by (simp add: strip_def a)
qed

lemma strip_ends:
  "strip s = [] \<or> (\<not> isspace (hd (strip s)) \<and> \<not> isspace (last (strip s)))"
proof (cases "dropWhile isspace s = []")
  case True
  show ?thesis unfolding strip_def True by simp
next
  case False
  define t where "t = dropWhile isspace s"
  have t: "t \<noteq> []" "\<not> isspace (hd t)"
    using False hd_dropWhile[of isspace s] by (simp_all add: t_def)
  define u where "u = dropWhile isspace (rev t)"
  have "\<not> isspace (last (rev t))"
    using t by (simp add: last_rev)
  then have "\<exists>x \<in> set (rev t). \<not> isspace x"
    using t(1) by (metis last_in_set rev_is_Nil_conv)
  then have u: "u \<noteq> []"
    by (auto simp: u_def dropWhile_eq_Nil_conv)
  then have hu: "\<not> isspace (hd u)"
    unfolding u_def by (rule hd_dropWhile)
  have "takeWhile isspace (rev t) @ u = rev t"
    by (simp add: u_def)
  then have "last u = last (rev t)"
    using u by (metis last_appendR)
  then have lu: "\<not> isspace (last u)"
    using t by (simp add: last_rev)
  have "strip s = rev u"
    by (simp add: strip_def t_def u_def)
  then show ?thesis
    using u hu lu by (simp add: hd_rev last_rev)
qed

lemma strip_strip: "strip (strip s) = strip s"
proof (cases "strip s = []")
  case True
  show ?thesis unfolding True by (simp add: strip_def)
next
  case False
  then show ?thesis using strip_ends[of s] by (simp add: strip_id)
qed

lemma str_nat_hd: "\<not> isspace (hd (str_nat n))"
  by (induction n rule: str_nat.induct)
     (subst str_nat.simps, simp add: not_isspace_digit_char str_nat_nonempty)

lemma str_nat_last: "\<not> isspace (last (str_nat n))"
  by (subst str_nat.simps) (simp add: not_isspace_digit_char)

lemma str_nat_hd_digit: "isdigit (hd (str_nat n))"
  using str_nat_digits[of n] str_nat_nonempty[of n] by (cases "str_nat n") auto

lemma str_int_nonempty: "str_int i \<noteq> []"
  by (simp add: str_int_def str_nat_nonempty)

lemma strip_str_int: "strip (str_int i) = str_int i"
proof (rule strip_id)
  show "str_int i \<noteq> []" by (rule str_int_nonempty)
  show "\<not> isspace (hd (str_int i))"
    by (simp add: str_int_def str_nat_hd) (simp add: isspace_def)
  show "\<not> isspace (last (str_int i))"
    by (simp add: str_int_def str_nat_last str_nat_nonempty)
qed

lemma py_int_str_int: "py_int (str_int i) = Inr i"
proof (cases "i < 0")
  case True
  then show ?thesis
    by (simp add: py_int_def strip_str_int) (simp add: str_int_def parse_nat_str_nat)
next
  case False
  obtain c cs where eq: "str_nat (nat i) = c # cs"
    using str_nat_nonempty[of "nat i"] by (cases "str_nat (nat i)") auto
  have d: "isdigit c"
    using str_nat_hd_digit[of "nat i"] by (simp add: eq)
  have "c \<noteq> CHR ''-''" "c \<noteq> CHR ''+''"
    using d by (auto simp: isdigit_def)
  moreover have "parse_nat (c # cs) = Some (nat i)"
    using parse_nat_str_nat[of "nat i"] by (simp add: eq)
  ultimately show ?thesis
    using False by (simp add: py_int_def strip_str_int) (simp add: str_int_def eq)
qed

section \<open>Reading and writing the count file\<close>

lemma py_int_strip: "(py_int (strip s) = Inr n) = (py_int s = Inr n)"
  by (simp add: py_int_def strip_strip split: list.splits option.splits)

lemma py_int_strip_isl: "isl (py_int (strip s)) = isl (py_int s)"
  by (simp add: py_int_def strip_strip split: list.splits option.splits)

lemma py_int_empty: "strip s = [] \<Longrightarrow> isl (py_int s)"
  by (simp add: py_int_def)

lemma py_int_kind: "py_int s = Inl e \<Longrightarrow> exc_kind_of e = ValueError"
  by (auto simp: py_int_def invalid_literal_def split: list.splits option.splits if_splits)

lemma read_last_count_total: "\<exists>n. fst (read_last_count p s) = Inr n"
  by (simp add: read_last_count_def split: prod.splits sum.splits)

lemma read_last_count_files: "files (snd (read_last_count p s)) = files s"
  by (auto simp: read_last_count_def read_last_count_try_def logging_def Let_def
      split: prod.splits sum.splits if_splits)

lemma read_last_count_value:
  "fst (read_last_count p s) =
     (case files s p of
        Text raw \<Rightarrow> (case py_int raw of Inr n \<Rightarrow> Inr n | Inl e \<Rightarrow> Inr 0)
      | _ \<Rightarrow> Inr 0)"
proof (cases "files s p")
  case Absent
  then show ?thesis
    by (simp add: read_last_count_def read_last_count_try_def open_read_def)
next
  case (Unreadable e)
  then show ?thesis
    by (simp add: read_last_count_def read_last_count_try_def open_read_def)
next
  case (Text raw)
  show ?thesis
  proof (cases "strip raw = []")
    case True
    then show ?thesis
      using Text py_int_empty[of raw]
      by (auto simp: read_last_count_def read_last_count_try_def open_read_def isl_def)
  next
    case False
    show ?thesis
    proof (cases "py_int raw")
      case (Inl e)
      then have "isl (py_int (strip raw))"
        using py_int_strip_isl[of raw] by simp
      then obtain e' where "py_int (strip raw) = Inl e'"
        by (auto simp: isl_def)
      then show ?thesis
        using Text False Inl
        by (simp add: read_last_count_def read_last_count_try_def open_read_def)
    next
      case (Inr n)
      then have "py_int (strip raw) = Inr n"
        by (simp add: py_int_strip)
      then show ?thesis
        using Text False Inr
        by (simp add: read_last_count_def read_last_count_try_def open_read_def)
    qed
  qed
qed

lemma py_int_nonneg:
  assumes "py_int s = Inr n" "\<And>cs. strip s \<noteq> CHR ''-'' # cs"
  shows "0 \<le> n"
  using assms by (auto simp: py_int_def split: list.splits option.splits if_splits)

section \<open>What each function leaves alone\<close>

lemma notifications_logging:
  "lv \<noteq> ERROR \<or> m \<noteq> ''Email configuration is incomplete. Cannot send email.'' \<Longrightarrow>
   notifications (logging lv m s) = notifications s"
  by (auto simp: notifications_def logging_def)

lemma notifications_files_update: "notifications (s\<lparr>files := f\<rparr>) = notifications s"
  by (simp add: notifications_def)

lemma files_logging: "files (logging lv m s) = files s"
  by (simp add: logging_def)

lemma files_emit: "files (emit e s) = files s"
  by (simp add: emit_def)

lemma read_last_count_notifications:
  "notifications (snd (read_last_count p s)) = notifications s"
  by (auto simp: read_last_count_def read_last_count_try_def Let_def notifications_logging
      split: prod.splits sum.splits if_splits)

lemma write_last_count_notifications:
  "notifications (snd (write_last_count p v fault s)) = notifications s"
  by (auto simp: write_last_count_def write_last_count_try_def notifications_logging
      notifications_files_update
      split: prod.splits sum.splits option.splits write_fault.splits)

lemma write_last_count_returns: "fst (write_last_count p v fault s) = Inr PyNone"
  by (auto simp: write_last_count_def split: prod.splits sum.splits)

lemma citation_result_files: "files (snd (citation_result a s)) = files s"
  by (auto simp: citation_result_def Let_def files_logging split: option.splits)

lemma citation_result_notifications:
  "notifications (snd (citation_result a s)) = notifications s"
  by (auto simp: citation_result_def Let_def notifications_logging split: option.splits)

lemma citation_result_fst:
  "fst (citation_result a s) =
     (case a of
        None \<Rightarrow> (PyStr ''Unknown Author'', PyNone)
      | Some d \<Rightarrow>
          if d \<noteq> [] \<and> dict_has d ''citedby''
          then (dict_get d ''name'' (PyStr ''N/A''), dict_get d ''citedby'' PyNone)
          else (if d \<noteq> [] then dict_get d ''name'' (PyStr ''N/A'') else PyStr ''Unknown Author'',
                PyNone))"
  by (auto simp: citation_result_def Let_def split: option.splits)

lemma get_citation_count_try_files:
  "files (snd (get_citation_count_try a i l s)) = files s"
  by (simp add: get_citation_count_try_def Let_def case_prod_beta citation_result_files
      files_logging split: sum.splits)

lemma get_citation_count_try_notifications:
  "notifications (snd (get_citation_count_try a i l s)) = notifications s"
  by (simp add: get_citation_count_try_def Let_def case_prod_beta
      citation_result_notifications notifications_logging split: sum.splits)

lemma get_citation_count_try_fst:
  "fst (get_citation_count_try a i l s) = fst (get_citation_count_try a i l s0)"
  by (simp add: get_citation_count_try_def Let_def case_prod_beta citation_result_fst
      split: sum.splits)

lemma get_citation_count_files:
  "files (snd (get_citation_count a i l s)) = files s"
  using get_citation_count_try_files[of a i l s]
  by (auto simp: get_citation_count_def files_logging split: sum.splits prod.splits)

lemma get_citation_count_notifications:
  "notifications (snd (get_citation_count a i l s)) = notifications s"
  using get_citation_count_try_notifications[of a i l s]
  by (auto simp: get_citation_count_def notifications_logging split: sum.splits prod.splits)

lemma get_citation_count_total:
  "\<exists>r. fst (get_citation_count a i l s) = Inr r"
  by (auto simp: get_citation_count_def split: sum.splits prod.splits)

lemma get_citation_count_fst:
  "fst (get_citation_count a i l s) = fst (get_citation_count a i l s0)"
proof -
  have "fst (get_citation_count a i l s) =
     (if \<not> truthy a \<and> \<not> truthy i then Inr (PyNone, PyNone)
      else case fst (get_citation_count_try a i l s) of
             Inr r \<Rightarrow> Inr r
           | Inl (e, q) \<Rightarrow> if exc_kind_of e = StopIteration then Inr (a, PyNone)
                            else Inr (q, PyNone))" for s
    by (auto simp: get_citation_count_def split: sum.splits prod.splits)
  then show ?thesis
    using get_citation_count_try_fst[of a i l s s0] by simp
qed

lemma notifications_emit:
  "notifications (emit e s) = notifications s @ (if notify_event e then [e] else [])"
  by (simp add: notifications_def emit_def)





lemma cycle_lookup_files: "files (snd (cycle_lookup cfg w s)) = files s"
  using get_citation_count_files
  by (auto simp: cycle_lookup_def files_logging split: sum.splits prod.splits)
     (metis snd_conv)+

lemma cycle_lookup_notifications:
  "notifications (snd (cycle_lookup cfg w s)) = notifications s"
  using get_citation_count_notifications
  by (auto simp: cycle_lookup_def notifications_logging split: sum.splits prod.splits)
     (metis snd_conv)+

lemma cycle_lookup_total: "\<exists>r. fst (cycle_lookup cfg w s) = Inr r"
  using get_citation_count_total
  by (auto simp: cycle_lookup_def split: sum.splits prod.splits) (metis fst_conv sum.distinct(1))+

lemma cycle_lookup_fst:
  "fst (cycle_lookup cfg w s) = fst (cycle_lookup cfg w s0)"
proof -
  have "fst (cycle_lookup cfg w s) =
     (if truthy (AUTHOR_ID cfg) then
        (case fst (get_citation_count PyNone (AUTHOR_ID cfg) (lib w) s) of
           Inl e \<Rightarrow> Inl e
         | Inr (nm, c) \<Rightarrow> Inr (''ID: '' @ py_str (AUTHOR_ID cfg), nm, c))
      else if truthy (AUTHOR_NAME cfg) then
        (case fst (get_citation_count (AUTHOR_NAME cfg) PyNone (lib w) s) of
           Inl e \<Rightarrow> Inl e
         | Inr (nm, c) \<Rightarrow> Inr (''Name: '' @ py_str (AUTHOR_NAME cfg), nm, c))
      else Inr (''N/A'', PyStr ''N/A'', PyNone))" for s
    by (auto simp: cycle_lookup_def split: sum.splits prod.splits)
  then show ?thesis
    using get_citation_count_fst[of _ _ "lib w" s s0] by simp
qed

lemma cycle_lookup_identifier:
  "fst (cycle_lookup cfg w s) = Inr (ident, nm, c) \<Longrightarrow> c \<noteq> PyNone \<Longrightarrow> ident \<noteq> ''N/A''"
  by (auto simp: cycle_lookup_def split: sum.splits prod.splits if_splits)




section \<open>One cycle, branch by branch\<close>

lemma persisted_files: "files s = files s' \<Longrightarrow> persisted p s = persisted p s'"
  by (simp add: persisted_def read_last_count_value)

lemma cycle_try_unfold:
  assumes "persisted LAST_COUNT_FILE s = Inr last_count"
    and "fst (cycle_lookup cfg w s) = Inr (ident, nm, c)"
  shows "\<exists>s2. files s2 = files s \<and> notifications s2 = notifications s \<and>
     cycle_try cfg w s =
       (case cycle_decide cfg w last_count ident nm c s2 of
          (Inl e, s3) \<Rightarrow> (Inl e, s3)
        | (Inr u, s3) \<Rightarrow> (Inr (), logging INFO ''--- Citation Check Cycle Finished ---'' s3))"
proof -
  define s0 where "s0 = logging INFO ''--- Starting Hourly Citation Check ---'' s"
  define s1 where "s1 = snd (read_last_count LAST_COUNT_FILE s0)"
  define s1' where "s1' = logging INFO (''Last known citation count: '' @ str_int last_count) s1"
  define s2 where "s2 = snd (cycle_lookup cfg w s1')"
  have f0: "files s0 = files s" and n0: "notifications s0 = notifications s"
    by (simp_all add: s0_def files_logging notifications_logging)
  have "fst (read_last_count LAST_COUNT_FILE s0) = Inr last_count"
    using assms(1) persisted_files[OF f0, of LAST_COUNT_FILE] by (simp add: persisted_def)
  then have r: "read_last_count LAST_COUNT_FILE s0 = (Inr last_count, s1)"
    by (simp add: s1_def prod_eq_iff)
  have f1: "files s1' = files s" and n1: "notifications s1' = notifications s"
    by (simp_all add: s1'_def s1_def files_logging notifications_logging
        read_last_count_files read_last_count_notifications f0 n0)
  have "fst (cycle_lookup cfg w s1') = Inr (ident, nm, c)"
    using assms(2) cycle_lookup_fst[of cfg w s1' s] by simp
  then have l: "cycle_lookup cfg w s1' = (Inr (ident, nm, c), s2)"
    by (simp add: s2_def prod_eq_iff)
  have f2: "files s2 = files s" and n2: "notifications s2 = notifications s"
    by (simp_all add: s2_def cycle_lookup_files cycle_lookup_notifications f1 n1)
  have "cycle_try cfg w s =
       (case cycle_decide cfg w last_count ident nm c s2 of
          (Inl e, s3) \<Rightarrow> (Inl e, s3)
        | (Inr u, s3) \<Rightarrow> (Inr (), logging INFO ''--- Citation Check Cycle Finished ---'' s3))"
    by (simp only: cycle_try_def s0_def[symmetric] r prod.case sum.case
        s1'_def[symmetric] l)
  with f2 n2 show ?thesis by blast
qed

lemma cycle_after_decide:
  assumes "cycle_try cfg w s =
       (case cycle_decide cfg w last_count ident nm c s2 of
          (Inl e, s3) \<Rightarrow> (Inl e, s3)
        | (Inr u, s3) \<Rightarrow> (Inr (), logging INFO ''--- Citation Check Cycle Finished ---'' s3))"
    and "cycle_decide cfg w last_count ident nm c s2 = (Inr (), s3)"
  shows "cycle cfg w s =
     emit (Sleep 3600) (logging INFO ''Waiting for 1 hour before next check...''
       (logging INFO ''--- Citation Check Cycle Finished ---'' s3))"
  using assms by (simp add: cycle_def)

lemma files_cycle_tail:
  "files (emit (Sleep 3600) (logging INFO ''Waiting for 1 hour before next check...''
       (logging INFO ''--- Citation Check Cycle Finished ---'' s3))) = files s3"
  by (simp add: files_emit files_logging)

lemma notifications_cycle_tail:
  "notifications (emit (Sleep 3600) (logging INFO ''Waiting for 1 hour before next check...''
       (logging INFO ''--- Citation Check Cycle Finished ---'' s3))) = notifications s3"
  by (simp add: notifications_emit notifications_logging)

lemma trace_cycle_tail:
  "trace (emit (Sleep 3600) (logging INFO ''Waiting for 1 hour before next check...''
       (logging INFO ''--- Citation Check Cycle Finished ---'' s3))) =
   trace s3 @ [Log INFO ''--- Citation Check Cycle Finished ---'',
               Log INFO ''Waiting for 1 hour before next check...'', Sleep 3600]"
  by (simp add: emit_def logging_def)

lemma cycle_no_count:
  assumes "fst (cycle_lookup cfg w s) = Inr (ident, nm, PyNone)"
  shows "files (cycle cfg w s) = files s"
    and "notifications (cycle cfg w s) = notifications s"
    and "\<exists>pre. trace (cycle cfg w s) =
           pre @ (if ident = ''N/A'' then []
                  else [Log WARNING (''Could not retrieve citation count for '' @ ident
                          @ ''. No comparison or email sent this cycle.'')])
               @ [Log INFO ''--- Citation Check Cycle Finished ---'',
                  Log INFO ''Waiting for 1 hour before next check...'', Sleep 3600]"
proof -
  obtain last_count where p: "persisted LAST_COUNT_FILE s = Inr last_count"
    using read_last_count_total[of LAST_COUNT_FILE s] by (auto simp: persisted_def)
  from cycle_try_unfold[OF p assms] obtain s2 where
    s2: "files s2 = files s" "notifications s2 = notifications s"
    and t: "cycle_try cfg w s =
       (case cycle_decide cfg w last_count ident nm PyNone s2 of
          (Inl e, s3) \<Rightarrow> (Inl e, s3)
        | (Inr u, s3) \<Rightarrow> (Inr (), logging INFO ''--- Citation Check Cycle Finished ---'' s3))"
    by blast
  define s3 where "s3 = (if ident = ''N/A'' then s2
     else logging WARNING (''Could not retrieve citation count for '' @ ident
                          @ ''. No comparison or email sent this cycle.'') s2)"
  have d: "cycle_decide cfg w last_count ident nm PyNone s2 = (Inr (), s3)"
    by (simp add: cycle_decide_def s3_def)
  note c = cycle_after_decide[OF t d]
  show "files (cycle cfg w s) = files s"
    unfolding c files_cycle_tail by (simp add: s3_def s2 files_logging)
  show "notifications (cycle cfg w s) = notifications s"
    unfolding c notifications_cycle_tail by (simp add: s3_def s2 notifications_logging)
  have "trace s3 = trace s2 @ (if ident = ''N/A'' then []
                  else [Log WARNING (''Could not retrieve citation count for '' @ ident
                          @ ''. No comparison or email sent this cycle.'')])"
    by (simp add: s3_def logging_def)
  then show "\<exists>pre. trace (cycle cfg w s) =
           pre @ (if ident = ''N/A'' then []
                  else [Log WARNING (''Could not retrieve citation count for '' @ ident
                          @ ''. No comparison or email sent this cycle.'')])
               @ [Log INFO ''--- Citation Check Cycle Finished ---'',
                  Log INFO ''Waiting for 1 hour before next check...'', Sleep 3600]"
    unfolding c trace_cycle_tail by (intro exI[of _ "trace s2"]) simp
qed

lemma write_last_count_files:
  "files (snd (write_last_count p v fault s)) =
     (case fault of
        None \<Rightarrow> (files s)(p := Text (str_int v))
      | Some (OpenFails e) \<Rightarrow> files s
      | Some (WriteFails k e) \<Rightarrow> (files s)(p := Text (take k (str_int v))))"
  by (simp add: write_last_count_def write_last_count_try_def logging_def
      split: option.splits write_fault.splits)

lemma write_last_count_files_cong:
  "files s = files s' \<Longrightarrow>
   files (snd (write_last_count p v fault s)) = files (snd (write_last_count p v fault s'))"
  by (simp add: write_last_count_files split: option.splits write_fault.splits)

lemma persisted_written:
  "files s = (files s0)(p := Text (str_int v)) \<Longrightarrow> persisted p s = Inr v"
  by (simp add: persisted_def read_last_count_value py_int_str_int)

lemma cycle_decrease:
  assumes "persisted LAST_COUNT_FILE s = Inr last_count"
    and "fst (cycle_lookup cfg w s) = Inr (ident, nm, PyInt cur)"
    and "cur < last_count"
  shows "files (cycle cfg w s) = files (snd (write_last_count LAST_COUNT_FILE cur (disk w) s))"
    and "notifications (cycle cfg w s) = notifications s"
proof -
  from cycle_try_unfold[OF assms(1,2)] obtain s2 where
    s2: "files s2 = files s" "notifications s2 = notifications s"
    and t: "cycle_try cfg w s =
       (case cycle_decide cfg w last_count ident nm (PyInt cur) s2 of
          (Inl e, s3) \<Rightarrow> (Inl e, s3)
        | (Inr u, s3) \<Rightarrow> (Inr (), logging INFO ''--- Citation Check Cycle Finished ---'' s3))"
    by blast
  have i: "ident \<noteq> ''N/A''"
    using cycle_lookup_identifier[OF assms(2)] by simp
  define s2' where "s2' = logging WARNING (''Citation count ('' @ str_int cur
       @ '') is lower than the last known count ('' @ str_int last_count
       @ ''). Not sending email, but updating count file.'') s2"
  define s3 where "s3 = snd (write_last_count LAST_COUNT_FILE cur (disk w) s2')"
  have wr: "write_last_count LAST_COUNT_FILE cur (disk w) s2' = (Inr PyNone, s3)"
    using write_last_count_returns[of LAST_COUNT_FILE cur "disk w" s2']
    by (simp add: s3_def prod_eq_iff)
  have d: "cycle_decide cfg w last_count ident nm (PyInt cur) s2 = (Inr (), s3)"
    using i assms(3)
    by (simp only: cycle_decide_def s2'_def[symmetric] wr py_val.case prod.case sum.case
        if_True if_False not_False_eq_True)
       (simp add: not_less_iff_gr_or_eq)
  note c = cycle_after_decide[OF t d]
  have f2: "files s2' = files s" and n2: "notifications s2' = notifications s"
    by (simp_all add: s2'_def files_logging notifications_logging s2)
  show "files (cycle cfg w s) = files (snd (write_last_count LAST_COUNT_FILE cur (disk w) s))"
    unfolding c files_cycle_tail s3_def by (rule write_last_count_files_cong[OF f2])
  show "notifications (cycle cfg w s) = notifications s"
    unfolding c notifications_cycle_tail s3_def
    by (simp add: write_last_count_notifications n2)
qed



section \<open>Evaluating the concrete runs\<close>

lemma persisted_stored_10: "persisted LAST_COUNT_FILE (stored ''10'') = Inr 10"
  by (simp add: persisted_def read_last_count_value stored_def start_state_def py_int_def
      strip_def isspace_def parse_nat_def isdigit_def digit_val_def)

lemma lookup_found:
  "fst (cycle_lookup demo_config (demo_world (lib_found nm c) sm dk) s) =
     Inr (''Name: Ada Lovelace'', PyStr nm, c)"
  by (simp add: cycle_lookup_def demo_config_def demo_world_def lib_found_def
      get_citation_count_def get_citation_count_try_def citation_result_def Let_def
      dict_has_def dict_get_def)

lemma lookup_no_match:
  "fst (cycle_lookup demo_config (demo_world lib_no_match sm dk) s) =
     Inr (''Name: Ada Lovelace'', PyStr ''Ada Lovelace'', PyNone)"
  by (simp add: cycle_lookup_def demo_config_def demo_world_def lib_no_match_def
      get_citation_count_def get_citation_count_try_def Let_def)

lemma notifications_stored: "notifications (stored c) = []"
  by (simp add: notifications_def stored_def start_state_def)


lemmas eval_int = py_int_def strip_def isspace_def parse_nat_def isdigit_def digit_val_def

section \<open>The claims\<close>

subsection \<open>The store\<close>

text \<open>C2. Whatever the state of the backing file among absent, empty (nothing but
  whitespace) and text that \<^verbatim>\<open>int\<close> rejects, \<open>read_last_count\<close> returns 0 and does not
  raise: its result is \<open>Inr 0\<close>, never an \<open>Inl\<close>. The same holds for a file that cannot be
  opened or decoded.\<close>

theorem read_last_count_defaults_to_zero:
  assumes "files s p = Absent \<or> (\<exists>e. files s p = Unreadable e)
     \<or> (\<exists>raw. files s p = Text raw \<and> (strip raw = [] \<or> isl (py_int raw)))"
  shows "fst (read_last_count p s) = Inr 0"
proof -
  consider (absent) "files s p = Absent" | (unreadable) e where "files s p = Unreadable e"
    | (content) raw where "files s p = Text raw" "strip raw = [] \<or> isl (py_int raw)"
    using assms by blast
  then show ?thesis
  proof cases
    case absent
    then show ?thesis by (simp add: read_last_count_value)
  next
    case unreadable
    then show ?thesis by (simp add: read_last_count_value)
  next
    case content
    then have "isl (py_int raw)"
      using py_int_empty[of raw] by blast
    then obtain e where "py_int raw = Inl e"
      by (auto simp: isl_def)
    then show ?thesis using content(1) by (simp add: read_last_count_value)
  qed
qed

theorem read_last_count_defaults_to_zero_witness:
  "files (start_state no_files) LAST_COUNT_FILE = Absent
   \<and> fst (read_last_count LAST_COUNT_FILE (start_state no_files)) = Inr 0
   \<and> files (stored ''  '') LAST_COUNT_FILE = Text ''  '' \<and> strip ''  '' = []
   \<and> fst (read_last_count LAST_COUNT_FILE (stored ''  '')) = Inr 0
   \<and> files (stored ''12a'') LAST_COUNT_FILE = Text ''12a'' \<and> isl (py_int ''12a'')
   \<and> fst (read_last_count LAST_COUNT_FILE (stored ''12a'')) = Inr 0"
proof -
  have a: "files (start_state no_files) LAST_COUNT_FILE = Absent"
    by (simp add: start_state_def no_files_def)
  have b: "files (stored ''  '') LAST_COUNT_FILE = Text ''  ''" "strip ''  '' = []"
    by (simp_all add: stored_def start_state_def strip_def isspace_def)
  have c: "files (stored ''12a'') LAST_COUNT_FILE = Text ''12a''" "isl (py_int ''12a'')"
    by (simp_all add: stored_def start_state_def eval_int)
  show ?thesis
    using a b c
      read_last_count_defaults_to_zero[of "start_state no_files" LAST_COUNT_FILE]
      read_last_count_defaults_to_zero[of "stored ''  ''" LAST_COUNT_FILE]
      read_last_count_defaults_to_zero[of "stored ''12a''" LAST_COUNT_FILE]
    by blast
qed





text \<open>C9, as claimed: whatever the file holds, the value read is non-negative. A file
  holding \<^verbatim>\<open>-5\<close> is read as the integer -5.\<close>

theorem read_last_count_negative_counterexample:
  "fst (read_last_count LAST_COUNT_FILE (stored ''-5'')) = Inr (- 5) \<and> \<not> (0::int) \<le> - 5"
  by (simp add: stored_def start_state_def read_last_count_value eval_int)

text \<open>C9, amended. The value read is a non-negative integer whenever the file is absent,
  unreadable, or holds text that, once stripped, does not begin with a minus sign.\<close>

theorem read_last_count_nonneg_unless_minus:
  assumes "\<And>raw cs. files s p = Text raw \<Longrightarrow> strip raw \<noteq> CHR ''-'' # cs"
  shows "\<exists>n. fst (read_last_count p s) = Inr n \<and> 0 \<le> n"
proof (cases "files s p")
  case (Text raw)
  show ?thesis
  proof (cases "py_int raw")
    case (Inl e)
    then show ?thesis using Text by (simp add: read_last_count_value)
  next
    case (Inr n)
    then have "0 \<le> n"
      using assms[OF Text] by (auto intro: py_int_nonneg)
    then show ?thesis using Text Inr by (simp add: read_last_count_value)
  qed
qed (simp_all add: read_last_count_value)

theorem read_last_count_nonneg_unless_minus_witness:
  "strip ''42'' = ''42'' \<and>
   (\<exists>n. fst (read_last_count LAST_COUNT_FILE (stored ''42'')) = Inr n \<and> 0 \<le> n)"
proof -
  have a: "strip ''42'' = ''42''"
    by (simp add: strip_def isspace_def)
  have "strip raw \<noteq> CHR ''-'' # cs"
    if "files (stored ''42'') LAST_COUNT_FILE = Text raw" for raw cs
    using that a by (auto simp: stored_def start_state_def)
  from read_last_count_nonneg_unless_minus[of "stored ''42''" LAST_COUNT_FILE, OF this] a
  show ?thesis by blast
qed

subsection \<open>The notifier\<close>

text \<open>C7. When any of sender, password, receiver, server and port is missing (\<^verbatim>\<open>None\<close>, or
  empty, or zero: whatever \<^verbatim>\<open>all\<close> counts as false), \<open>send_email\<close> returns \<^verbatim>\<open>False\<close> at once:
  its only effect is one ERROR line, and no call on an SMTP connection is made.\<close>

theorem send_email_incomplete:
  assumes "\<not> truthy sender \<or> \<not> truthy password \<or> \<not> truthy receiver
           \<or> \<not> truthy server \<or> \<not> truthy port"
  shows "send_email subject body sender password receiver server port fault s =
           (Inr False, logging ERROR ''Email configuration is incomplete. Cannot send email.'' s)
       \<and> filter smtp_event (trace (snd (send_email subject body sender password receiver
              server port fault s))) = filter smtp_event (trace s)"
  using assms by (auto simp: send_email_def logging_def)

theorem send_email_incomplete_witness:
  "\<not> truthy PyNone \<and>
   fst (send_email ''s'' ''b'' (PyStr ''bot@example.org'') PyNone (PyStr ''me@example.org'')
       (PyStr ''smtp.gmail.com'') (PyInt 587) None (stored ''10'')) = Inr False \<and>
   filter smtp_event (trace (snd (send_email ''s'' ''b'' (PyStr ''bot@example.org'') PyNone
       (PyStr ''me@example.org'') (PyStr ''smtp.gmail.com'') (PyInt 587) None (stored ''10''))))
     = []"
  using send_email_incomplete[of "PyStr ''bot@example.org''" PyNone "PyStr ''me@example.org''"
      "PyStr ''smtp.gmail.com''" "PyInt 587" "''s''" "''b''" None "stored ''10''"]
  by (simp add: stored_def start_state_def logging_def)

subsection \<open>Configuration\<close>

text \<open>C10. When the environment sets \<^verbatim>\<open>SMTP_PORT\<close> to a string that \<^verbatim>\<open>int\<close> rejects, loading
  the configuration raises \<^verbatim>\<open>ValueError\<close>, nothing catches it, and the script ends in the
  state it started in: no cycle runs, however many would have followed.\<close>

theorem smtp_port_unparsable_terminates:
  assumes "env ''SMTP_PORT'' = Some v" and "isl (py_int v)"
  shows "\<exists>m. load_config env = Inl (Exc ValueError m) \<and>
             program env ws s = (Some (Exc ValueError m), s)"
proof -
  obtain e where e: "py_int v = Inl e"
    using assms(2) by (auto simp: isl_def)
  then have "exc_kind_of e = ValueError"
    by (rule py_int_kind)
  then obtain m where "e = Exc ValueError m"
    by (cases e) simp
  then show ?thesis
    using assms(1) e by (simp add: program_def load_config_def getenv_def)
qed

theorem smtp_port_unparsable_terminates_witness:
  "env_bad_port ''SMTP_PORT'' = Some ''abc'' \<and> isl (py_int ''abc'') \<and>
   (\<exists>m. program env_bad_port [demo_world (lib_found ''Ada'' (PyInt 15)) None None]
           (stored ''10'') = (Some (Exc ValueError m), stored ''10''))"
proof -
  have a: "env_bad_port ''SMTP_PORT'' = Some ''abc''"
    by (simp add: env_bad_port_def)
  have b: "isl (py_int ''abc'')"
    by (simp add: eval_int)
  from smtp_port_unparsable_terminates[of env_bad_port "''abc''"
      "[demo_world (lib_found ''Ada'' (PyInt 15)) None None]" "stored ''10''", OF a b] a b
  show ?thesis by blast
qed

subsection \<open>The check cycle\<close>

text \<open>C6. In a cycle whose lookup reports no count (the library found nobody or raised,
  or no author is configured) the files are as before, so the persisted count is unchanged,
  no event of \<open>send_email\<close> is added to the trace, and the cycle ends with its log lines and
  the hour of sleep; when a lookup was made, the WARNING line about the missing count
  comes just before them.\<close>

theorem lookup_failure_leaves_count:
  assumes "fst (cycle_lookup cfg w s) = Inr (ident, nm, PyNone)"
  shows "files (cycle cfg w s) = files s
       \<and> persisted LAST_COUNT_FILE (cycle cfg w s) = persisted LAST_COUNT_FILE s
       \<and> notifications (cycle cfg w s) = notifications s
       \<and> (\<exists>pre. trace (cycle cfg w s) =
             pre @ (if ident = ''N/A'' then []
                    else [Log WARNING (''Could not retrieve citation count for '' @ ident
                            @ ''. No comparison or email sent this cycle.'')])
                 @ [Log INFO ''--- Citation Check Cycle Finished ---'',
                    Log INFO ''Waiting for 1 hour before next check...'', Sleep 3600])"
  using cycle_no_count[OF assms] persisted_files[of "cycle cfg w s" s LAST_COUNT_FILE]
  by simp

theorem lookup_failure_leaves_count_witness:
  "fst (cycle_lookup demo_config (demo_world lib_no_match None None) (stored ''10'')) =
     Inr (''Name: Ada Lovelace'', PyStr ''Ada Lovelace'', PyNone)
   \<and> persisted LAST_COUNT_FILE (cycle demo_config (demo_world lib_no_match None None)
        (stored ''10'')) = Inr 10
   \<and> notifications (cycle demo_config (demo_world lib_no_match None None) (stored ''10'')) = []"
  using lookup_failure_leaves_count[OF lookup_no_match[of None None "stored ''10''"]]
    lookup_no_match[of None None "stored ''10''"] persisted_stored_10 notifications_stored
  by simp

text \<open>C5, as claimed: whenever the lookup gives a count below the persisted one, the cycle
  persists it. With 10 in the file, a lookup of 8 and a disk that refuses to open the file
  for writing, the file still reads 10 after the cycle.\<close>

theorem decrease_write_fault_counterexample:
  "persisted LAST_COUNT_FILE (stored ''10'') = Inr 10
   \<and> fst (cycle_lookup demo_config
        (demo_world (lib_found ''Ada'' (PyInt 8)) None (Some (OpenFails permission_denied)))
        (stored ''10'')) = Inr (''Name: Ada Lovelace'', PyStr ''Ada'', PyInt 8)
   \<and> persisted LAST_COUNT_FILE (cycle demo_config
        (demo_world (lib_found ''Ada'' (PyInt 8)) None (Some (OpenFails permission_denied)))
        (stored ''10'')) = Inr 10
   \<and> persisted LAST_COUNT_FILE (cycle demo_config
        (demo_world (lib_found ''Ada'' (PyInt 8)) None (Some (OpenFails permission_denied)))
        (stored ''10'')) \<noteq> Inr 8"
proof -
  let ?w = "demo_world (lib_found ''Ada'' (PyInt 8)) None (Some (OpenFails permission_denied))"
  have "files (cycle demo_config ?w (stored ''10'')) = files (stored ''10'')"
    using cycle_decrease(1)[OF persisted_stored_10 lookup_found, of 8 "''Ada''" None
        "Some (OpenFails permission_denied)"]
    by (simp add: write_last_count_files demo_world_def)
  then show ?thesis
    using persisted_files[of "cycle demo_config ?w (stored ''10'')" "stored ''10''"]
      persisted_stored_10 lookup_found by simp
qed

text \<open>C5, amended. In a cycle whose lookup gives a count below the persisted one, no event
  of \<open>send_email\<close> is added to the trace and the only change to the files is the one
  \<open>write_last_count\<close> makes with the new count; when that write meets no I/O failure the
  persisted count is the new count after the cycle.\<close>

theorem decrease_persists_without_notice:
  assumes "persisted LAST_COUNT_FILE s = Inr last_count"
    and "fst (cycle_lookup cfg w s) = Inr (ident, nm, PyInt cur)"
    and "cur < last_count"
  shows "notifications (cycle cfg w s) = notifications s
       \<and> files (cycle cfg w s) = files (snd (write_last_count LAST_COUNT_FILE cur (disk w) s))
       \<and> (disk w = None \<longrightarrow> persisted LAST_COUNT_FILE (cycle cfg w s) = Inr cur)"
proof -
  note c = cycle_decrease[OF assms]
  have "persisted LAST_COUNT_FILE (cycle cfg w s) = Inr cur" if "disk w = None"
    using c(1) that by (intro persisted_written[of _ s]) (simp add: write_last_count_files)
  with c show ?thesis by simp
qed

theorem decrease_persists_without_notice_witness:
  "persisted LAST_COUNT_FILE (stored ''10'') = Inr 10 \<and> (8::int) < 10
   \<and> disk (demo_world (lib_found ''Ada'' (PyInt 8)) None None) = None
   \<and> notifications (cycle demo_config (demo_world (lib_found ''Ada'' (PyInt 8)) None None)
        (stored ''10'')) = []
   \<and> persisted LAST_COUNT_FILE (cycle demo_config
        (demo_world (lib_found ''Ada'' (PyInt 8)) None None) (stored ''10'')) = Inr 8"
  using decrease_persists_without_notice[OF persisted_stored_10 lookup_found, of 8 "''Ada''"
      None None]
    persisted_stored_10 notifications_stored
  by (simp add: demo_world_def)




subsection \<open>The lookup\<close>



end
